theory Spec2Isabelle
  imports Main "HOL-Library.AList"
begin

section \<open>OathstoneClient: configuration, registries, balances and transfers\<close>

text \<open>
  A shallow embedding of \<^verbatim>\<open>src/index.js\<close> (class \<^verbatim>\<open>OathstoneClient\<close>) with the types of
  \<^verbatim>\<open>index.d.ts\<close>. A JavaScript object used as a dictionary is an association list in
  \<^verbatim>\<open>Object.entries\<close> order; reading one of its own keys is \<open>map_of\<close>, a member read that
  may meet any name is \<open>js_get\<close>, writing a key replaces the entry in place or appends a
  new one. An optional field is an \<open>option\<close>. A thrown exception is the
  \<open>Inl\<close> branch of a sum. The constructors of the EVM library (\<^verbatim>\<open>JsonRpcProvider\<close>,
  \<^verbatim>\<open>Contract\<close>) build a value and do not throw; what the library does with the network is
  a parameter (\<open>world\<close> below).
\<close>

subsection \<open>JavaScript objects, truthiness and errors\<close>

type_synonym 'v obj = "(string \<times> 'v) list"

definition obj_get :: "'v obj \<Rightarrow> string \<Rightarrow> 'v option" where
  "obj_get obj k = map_of obj k"

definition obj_set :: "string \<Rightarrow> 'v \<Rightarrow> 'v obj \<Rightarrow> 'v obj" where
  "obj_set k v obj = AList.update k v obj"

definition wf_obj :: "'v obj \<Rightarrow> bool" where
  "wf_obj obj = distinct (map fst obj)"

text \<open>An optional string is truthy when it is present and not the empty string.\<close>

definition truthy :: "string option \<Rightarrow> bool" where
  "truthy s = (case s of None \<Rightarrow> False | Some v \<Rightarrow> v \<noteq> [])"

text \<open>The operator \<^verbatim>\<open>a || b\<close> on optional strings.\<close>

definition js_or :: "string option \<Rightarrow> string option \<Rightarrow> string option" where
  "js_or a b = (if truthy a then a else b)"

text \<open>
  Reading \<^verbatim>\<open>obj[k]\<close> on a plain object also finds what the object inherits: the members of
  \<^verbatim>\<open>Object.prototype\<close>, all truthy on a plain object. A read gives the value stored under
  the object's own key, or an inherited member that is no stored value, or nothing.
  \<^verbatim>\<open>Object.prototype\<close> is the standard one: nothing has been added to it.
\<close>

datatype 'v slot = Absent | Own 'v | Inherited string

definition object_prototype_names :: "string list" where
  "object_prototype_names =
     [''constructor'', ''__defineGetter__'', ''__defineSetter__'', ''hasOwnProperty'',
      ''__lookupGetter__'', ''__lookupSetter__'', ''isPrototypeOf'', ''propertyIsEnumerable'',
      ''toString'', ''valueOf'', ''__proto__'', ''toLocaleString'']"

definition js_get :: "'v obj \<Rightarrow> string \<Rightarrow> 'v slot" where
  "js_get obj k =
     (case obj_get obj k of
        Some v \<Rightarrow> Own v
      | None \<Rightarrow> if k \<in> set object_prototype_names then Inherited k else Absent)"

text \<open>
  \<open>Error\<close> is the \<^verbatim>\<open>Error\<close> this code throws, with its message; \<open>TypeError\<close> is what
  the runtime throws on reading the entries of an absent object. \<open>InvalidAmountError\<close> is
  raised by the amount conversion of the EVM library; \<open>RemoteError\<close> stands for a rejected
  RPC call, submission or confirmation.
\<close>

datatype error = Error string | TypeError string | InvalidAmountError | RemoteError string

definition isError :: "error + 'a \<Rightarrow> bool" where
  "isError r = (case r of Inl _ \<Rightarrow> True | Inr _ \<Rightarrow> False)"

subsection \<open>Configuration (index.d.ts)\<close>

record RpcUrls =
  testnet :: "string option"
  mainnet :: "string option"

text \<open>An ABI is kept as the list of the names of its entries.\<close>

record TokenConfig =
  contractAddress :: "string option"
  address :: "string option"
  abi :: "string list option"
  decimals :: "nat option"
  symbol :: "string option"
  name :: "string option"

text \<open>
  \<open>environment\<close> is declared \<^verbatim>\<open>number\<close>; on a number \<^verbatim>\<open>Number(x) === 0\<close> is \<open>x = 0\<close>.
  \<open>rpcUrl\<close> is optional here because the code tests it (\<^verbatim>\<open>!net.rpcUrl\<close>, \<^verbatim>\<open>rpcUrl?.testnet\<close>).
\<close>

record NetworkConfig =
  environment :: int
  rpcUrl :: "RpcUrls option"
  tokens :: "TokenConfig obj option"

record OathstoneConfig =
  networks :: "NetworkConfig obj option"

subsection \<open>validateConfig and resolveRpcUrl\<close>

text \<open>The inner loop of \<^verbatim>\<open>validateConfig\<close>: \<^verbatim>\<open>normTokens[t] = { ...tk, contractAddress: address }\<close>.\<close>

fun normalizeTokens :: "TokenConfig obj \<Rightarrow> TokenConfig obj \<Rightarrow> TokenConfig obj" where
  "normalizeTokens [] normTokens = normTokens"
| "normalizeTokens ((t, tk) # rest) normTokens =
     (let addr = js_or (contractAddress tk) (address tk)
      in normalizeTokens rest (obj_set t (tk\<lparr>contractAddress := addr\<rparr>) normTokens))"

text \<open>
  The outer loop runs over the entries of the copy \<open>normalized\<close> taken before the loop and
  overwrites \<^verbatim>\<open>normalized.networks[n]\<close>; a network without \<^verbatim>\<open>rpcUrl\<close> throws.
\<close>

fun validateNetworks :: "NetworkConfig obj \<Rightarrow> NetworkConfig obj \<Rightarrow> error + NetworkConfig obj" where
  "validateNetworks [] normalized = Inr normalized"
| "validateNetworks ((n, net) # rest) normalized =
     (if rpcUrl net = None then Inl (Error (''Network '' @ n @ '' missing rpcUrl''))
      else
        let tks = (case tokens net of None \<Rightarrow> [] | Some ts \<Rightarrow> ts);
            normTokens = normalizeTokens tks []
        in validateNetworks rest (obj_set n (net\<lparr>tokens := Some normTokens\<rparr>) normalized))"

text \<open>\<^verbatim>\<open>{ ...config.networks }\<close> of an absent \<open>networks\<close> is the empty object.\<close>

definition validateConfig :: "OathstoneConfig \<Rightarrow> error + OathstoneConfig" where
  "validateConfig config =
     (let nets = (case networks config of None \<Rightarrow> [] | Some ns \<Rightarrow> ns)
      in case validateNetworks nets nets of
           Inl e \<Rightarrow> Inl e
         | Inr normalized \<Rightarrow> Inr (config\<lparr>networks := Some normalized\<rparr>))"

definition resolveRpcUrl :: "NetworkConfig \<Rightarrow> error + string" where
  "resolveRpcUrl networkConfig =
     (let isTestnet = (environment networkConfig = 0);
          url = (if isTestnet
                 then (case rpcUrl networkConfig of None \<Rightarrow> None | Some r \<Rightarrow> testnet r)
                 else (case rpcUrl networkConfig of None \<Rightarrow> None | Some r \<Rightarrow> mainnet r))
      in case url of
           None \<Rightarrow> Inl (Error ''Missing rpcUrl for network (check testnet/mainnet keys)'')
         | Some u \<Rightarrow>
             if u = [] then Inl (Error ''Missing rpcUrl for network (check testnet/mainnet keys)'')
             else Inr u)"

subsection \<open>The client: constructor and registries\<close>

datatype provider = JsonRpcProvider string

text \<open>A contract binding: address, ABI and the runner \<^verbatim>\<open>this.providers[networkName]\<close>.\<close>

datatype contract = Contract string "string list" "provider option"

record client =
  config :: OathstoneConfig
  providers :: "provider obj"
  contracts :: "contract obj obj"

definition ERC20_ABI :: "string list" where
  "ERC20_ABI = [''balanceOf'', ''transfer'', ''decimals'', ''symbol'', ''name'']"

definition new_OathstoneClient :: "OathstoneConfig option \<Rightarrow> error + client" where
  "new_OathstoneClient cfg =
     (case cfg of
        None \<Rightarrow> Inl (Error ''Invalid config: expected { networks: {...} }'')
      | Some raw \<Rightarrow>
          if networks raw = None
          then Inl (Error ''Invalid config: expected { networks: {...} }'')
          else (case validateConfig raw of
                  Inl e \<Rightarrow> Inl e
                | Inr normalized \<Rightarrow>
                    Inr \<lparr>config = normalized, providers = [], contracts = []\<rparr>))"

text \<open>
  The loop of \<^verbatim>\<open>connectNetworks\<close>. It writes \<^verbatim>\<open>this.providers\<close> as it goes, so the providers
  stored before a throw stay stored: the state is returned with the error. This loop and
  those of \<^verbatim>\<open>loadContracts\<close> write and read the registries under the configuration's own
  network and token names.
\<close>

fun connectLoop :: "NetworkConfig obj \<Rightarrow> provider obj \<Rightarrow> (error + bool) \<times> provider obj" where
  "connectLoop [] ps = (Inr True, ps)"
| "connectLoop ((networkName, networkConfig) # rest) ps =
     (case resolveRpcUrl networkConfig of
        Inl e \<Rightarrow> (Inl e, ps)
      | Inr url \<Rightarrow> connectLoop rest (obj_set networkName (JsonRpcProvider url) ps))"

definition connectNetworks :: "client \<Rightarrow> (error + bool) \<times> client" where
  "connectNetworks c =
     (case networks (config c) of
        None \<Rightarrow> (Inl (TypeError ''Cannot convert undefined or null to object''), c)
      | Some nets \<Rightarrow>
          (case connectLoop nets (providers c) of
             (r, ps) \<Rightarrow> (r, c\<lparr>providers := ps\<rparr>)))"

text \<open>The inner loop of \<^verbatim>\<open>loadContracts\<close>; \<open>bound\<close> is \<^verbatim>\<open>this.contracts[networkName]\<close>.\<close>

fun loadTokens :: "TokenConfig obj \<Rightarrow> provider option \<Rightarrow> contract obj \<Rightarrow> contract obj" where
  "loadTokens [] runner bound = bound"
| "loadTokens ((tokenName, tokenConfig) # rest) runner bound =
     (case js_or (contractAddress tokenConfig) (address tokenConfig) of
        None \<Rightarrow> loadTokens rest runner bound
      | Some addr \<Rightarrow>
          if addr = [] then loadTokens rest runner bound
          else
            let abi' = (case abi tokenConfig of Some a \<Rightarrow> a | None \<Rightarrow> ERC20_ABI)
            in loadTokens rest runner (obj_set tokenName (Contract addr abi' runner) bound))"

fun loadLoop :: "NetworkConfig obj \<Rightarrow> provider obj \<Rightarrow> contract obj obj \<Rightarrow> contract obj obj" where
  "loadLoop [] ps cs = cs"
| "loadLoop ((networkName, networkConfig) # rest) ps cs =
     (let bound = (case obj_get cs networkName of None \<Rightarrow> [] | Some b \<Rightarrow> b);
          tks = (case tokens networkConfig of None \<Rightarrow> [] | Some ts \<Rightarrow> ts)
      in loadLoop rest ps
           (obj_set networkName (loadTokens tks (obj_get ps networkName) bound) cs))"

definition loadContracts :: "client \<Rightarrow> (error + bool) \<times> client" where
  "loadContracts c =
     (case (if providers c = [] then connectNetworks c else (Inr True, c)) of
        (Inl e, c1) \<Rightarrow> (Inl e, c1)
      | (Inr _, c1) \<Rightarrow>
          (case networks (config c1) of
             None \<Rightarrow> (Inl (TypeError ''Cannot convert undefined or null to object''), c1)
           | Some nets \<Rightarrow>
               (Inr True, c1\<lparr>contracts := loadLoop nets (providers c1) (contracts c1)\<rparr>)))"

text \<open>
  What the registries hold: the connection stored under a network name in
  \<^verbatim>\<open>this.providers\<close>, and the binding stored under a network and a token name in
  \<^verbatim>\<open>this.contracts\<close>.
\<close>

definition connectionOf :: "client \<Rightarrow> string \<Rightarrow> provider option" where
  "connectionOf c network = obj_get (providers c) network"

definition bindingOf :: "client \<Rightarrow> string \<Rightarrow> string \<Rightarrow> contract option" where
  "bindingOf c network tokenName =
     (case obj_get (contracts c) network of
        None \<Rightarrow> None
      | Some bound \<Rightarrow> obj_get bound tokenName)"

text \<open>\<^verbatim>\<open>getProvider\<close> reads \<^verbatim>\<open>this.providers[network]\<close>, inherited members included.\<close>

definition getProvider :: "client \<Rightarrow> string \<Rightarrow> provider slot" where
  "getProvider c network = js_get (providers c) network"

subsection \<open>Unit conversion of the EVM library\<close>

text \<open>
  Modelled from the spec: \<^verbatim>\<open>ethers.parseUnits\<close>, \<^verbatim>\<open>parseEther\<close>, \<^verbatim>\<open>formatUnits\<close> and
  \<^verbatim>\<open>formatEther\<close> belong to the imported library and are missing from \<^verbatim>\<open>src/\<close>; the digit
  functions below serve their models. A raw balance is a \<^verbatim>\<open>uint256\<close>, a natural number;
  \<open>showNat\<close> prints it in decimal, as \<^verbatim>\<open>BigInt.toString\<close> does.
\<close>

definition is_digit :: "char \<Rightarrow> bool" where
  "is_digit ch = (ch \<in> set ''0123456789'')"

definition digit_val :: "char \<Rightarrow> nat" where
  "digit_val ch = length (takeWhile (\<lambda>d. d \<noteq> ch) ''0123456789'')"

definition digit_char :: "nat \<Rightarrow> char" where
  "digit_char n = ''0123456789'' ! n"

definition digits_to_nat :: "string \<Rightarrow> nat" where
  "digits_to_nat ds = foldl (\<lambda>acc ch. acc * 10 + digit_val ch) 0 ds"

function showNat :: "nat \<Rightarrow> string" where
  "showNat n = (if n < 10 then [digit_char n] else showNat (n div 10) @ [digit_char (n mod 10)])"
  by pat_completeness auto
termination
  by (relation "measure id") auto

declare showNat.simps [simp del]

definition trimZeros :: "string \<Rightarrow> string" where
  "trimZeros frac =
     (let t = rev (dropWhile (\<lambda>ch. ch = CHR ''0'') (rev frac))
      in if t = [] then ''0'' else t)"

text \<open>
  Modelled from the spec: \<^verbatim>\<open>ethers.formatUnits\<close> is library code missing from \<^verbatim>\<open>src/\<close>. The
  spec asks for an exact fixed-point conversion of the raw integer by the decimal count: the
  whole part, a point, and the fraction with its trailing zeros removed but at least one
  digit kept (\<open>1500000000000000000\<close> at 18 is \<open>1.5\<close>, \<open>0\<close> is \<open>0.0\<close>). With no decimals
  the value is printed as an integer.
\<close>

definition formatUnits :: "nat \<Rightarrow> nat \<Rightarrow> string" where
  "formatUnits raw d =
     (if d = 0 then showNat raw
      else
        let whole = showNat (raw div 10 ^ d);
            digs = showNat (raw mod 10 ^ d);
            frac = replicate (d - length digs) CHR ''0'' @ digs
        in whole @ ''.'' @ trimZeros frac)"

definition formatEther :: "nat \<Rightarrow> string" where
  "formatEther wei = formatUnits wei 18"

text \<open>
  Modelled from the spec: \<^verbatim>\<open>ethers.parseUnits\<close> is library code missing from \<^verbatim>\<open>src/\<close>. The
  spec asks for an arbitrary-precision scaling of the decimal string by \<open>10 ^ d\<close> that fails
  with \<open>InvalidAmountError\<close> when the scaled amount is not an exact integer, that is when a
  digit other than 0 stands beyond the \<open>d\<close>-th fractional place. A string that is not an
  optionally signed decimal numeral is rejected with the same error.
\<close>

definition parseUnits :: "string \<Rightarrow> nat \<Rightarrow> error + int" where
  "parseUnits s d =
     (let neg = (s \<noteq> [] \<and> hd s = CHR ''-'');
          body = (if neg then tl s else s);
          whole = takeWhile (\<lambda>ch. ch \<noteq> CHR ''.'') body;
          frac = drop 1 (dropWhile (\<lambda>ch. ch \<noteq> CHR ''.'') body)
      in if whole = [] \<and> frac = [] then Inl InvalidAmountError
         else if list_all is_digit whole \<and> list_all is_digit frac
                 \<and> list_all (\<lambda>ch. ch = CHR ''0'') (drop d frac)
         then
           let padded = take d frac @ replicate (d - length frac) CHR ''0'';
               v = int (digits_to_nat (whole @ padded))
           in Inr (if neg then - v else v)
         else Inl InvalidAmountError)"

definition parseEther :: "string \<Rightarrow> error + int" where
  "parseEther ether = parseUnits ether 18"

subsection \<open>The remote side\<close>

text \<open>
  What lies outside this code is a parameter of the model: \<open>world\<close> gives the outcome of
  each remote call (\<open>Inl\<close> a rejected promise) and of building a wallet from a private key.
  Each operation returns its result together with the remote calls it issued, in order.
  A binding exposes the methods its ABI names; calling a method it does not expose, or
  any method on an inherited member, throws a \<open>TypeError\<close> on the spot, which no
  \<^verbatim>\<open>.catch\<close> sees. What the members of \<^verbatim>\<open>Object.prototype\<close> themselves hold differs between
  runtimes: \<open>builtinMember w m k\<close> tells whether reading \<open>k\<close> on the member \<open>m\<close> throws
  (\<open>Inl\<close>), gives a truthy value (\<open>Inr True\<close>) or gives nothing.
\<close>

datatype signer = Wallet string "provider slot"

datatype rpc_call =
    CallGetBalance provider string
  | CallBalanceOf contract string
  | CallDecimals contract
  | CallSendTransaction signer string int
  | CallTransfer contract signer string int
  | CallWait string

record world =
  getBalance :: "provider \<Rightarrow> string \<Rightarrow> error + nat"
  balanceOf :: "contract \<Rightarrow> string \<Rightarrow> error + nat"
  decimalsOf :: "contract \<Rightarrow> error + nat"
  newWallet :: "string \<Rightarrow> error option"
  sendTransaction :: "signer \<Rightarrow> string \<Rightarrow> int \<Rightarrow> error + string"
  transfer :: "contract \<Rightarrow> signer \<Rightarrow> string \<Rightarrow> int \<Rightarrow> error + string"
  wait :: "string \<Rightarrow> error + nat option"
  builtinMember :: "string \<Rightarrow> string \<Rightarrow> error + bool"

record TxResult =
  network :: string
  token :: "string option"
  hash :: string
  status :: "nat option"

fun has_method :: "contract \<Rightarrow> string \<Rightarrow> bool" where
  "has_method (Contract addr abi' runner) m = (m \<in> set abi')"

text \<open>\<^verbatim>\<open>getContract\<close> reads \<^verbatim>\<open>this.contracts[network]?.[tokenName]\<close>.\<close>

definition getContract :: "world \<Rightarrow> client \<Rightarrow> string \<Rightarrow> string \<Rightarrow> error + contract slot" where
  "getContract w c net_name tokenName =
     (case js_get (contracts c) net_name of
        Absent \<Rightarrow> Inr Absent
      | Own bound \<Rightarrow> Inr (js_get bound tokenName)
      | Inherited m \<Rightarrow>
          (case builtinMember w m tokenName of
             Inl e \<Rightarrow> Inl e
           | Inr found \<Rightarrow> Inr (if found then Inherited (m @ ''.'' @ tokenName) else Absent)))"

subsection \<open>Balances\<close>

definition getNativeBalance :: "world \<Rightarrow> client \<Rightarrow> string \<Rightarrow> string \<Rightarrow> (error + string) \<times> rpc_call list" where
  "getNativeBalance w c net_name addr =
     (case getProvider c net_name of
        Absent \<Rightarrow> (Inl (Error (''Provider not initialized for '' @ net_name)), [])
      | Inherited m \<Rightarrow> (Inl (TypeError ''provider.getBalance is not a function''), [])
      | Own prov \<Rightarrow>
          (case getBalance w prov addr of
             Inl e \<Rightarrow> (Inl e, [CallGetBalance prov addr])
           | Inr balance \<Rightarrow> (Inr (formatEther balance), [CallGetBalance prov addr])))"

text \<open>
  The array given to \<^verbatim>\<open>Promise.all\<close> is built first: \<^verbatim>\<open>balanceOf\<close> is called, then
  \<^verbatim>\<open>decimals\<close>, whatever either answers; a rejected \<^verbatim>\<open>decimals\<close> is caught and becomes 18, a
  missing method throws.
\<close>

definition getTokenBalance :: "world \<Rightarrow> client \<Rightarrow> string \<Rightarrow> string \<Rightarrow> string \<Rightarrow> (error + string) \<times> rpc_call list" where
  "getTokenBalance w c net_name tokenName addr =
     (case getContract w c net_name tokenName of
        Inl e \<Rightarrow> (Inl e, [])
      | Inr Absent \<Rightarrow>
          (Inl (Error (''Contract not found for '' @ tokenName @ '' on '' @ net_name)), [])
      | Inr (Inherited m) \<Rightarrow> (Inl (TypeError ''contract.balanceOf is not a function''), [])
      | Inr (Own k) \<Rightarrow>
          if has_method k ''balanceOf'' then
            if has_method k ''decimals'' then
              let calls = [CallBalanceOf k addr, CallDecimals k];
                  dec = (case decimalsOf w k of Inl _ \<Rightarrow> 18 | Inr n \<Rightarrow> n)
              in (case balanceOf w k addr of
                    Inl e \<Rightarrow> (Inl e, calls)
                  | Inr raw \<Rightarrow> (Inr (formatUnits raw dec), calls))
            else (Inl (TypeError ''contract.decimals is not a function''), [CallBalanceOf k addr])
          else (Inl (TypeError ''contract.balanceOf is not a function''), []))"

subsection \<open>Transfers\<close>

text \<open>
  The amount is the string \<^verbatim>\<open>amount.toString()\<close>. The signer is built on whatever truthy
  value \<^verbatim>\<open>getProvider\<close> returned.
\<close>

definition transferNative :: "world \<Rightarrow> client \<Rightarrow> string \<Rightarrow> string \<Rightarrow> string \<Rightarrow> string \<Rightarrow> (error + TxResult) \<times> rpc_call list" where
  "transferNative w c net_name fromPrivateKey toAddress amount =
     (case getProvider c net_name of
        Absent \<Rightarrow> (Inl (Error (''Provider not initialized for '' @ net_name)), [])
      | prov \<Rightarrow>
          (case newWallet w fromPrivateKey of
             Some e \<Rightarrow> (Inl e, [])
           | None \<Rightarrow>
               let sgn = Wallet fromPrivateKey prov
               in (case parseEther amount of
                     Inl e \<Rightarrow> (Inl e, [])
                   | Inr v \<Rightarrow>
                       (case sendTransaction w sgn toAddress v of
                          Inl e \<Rightarrow> (Inl e, [CallSendTransaction sgn toAddress v])
                        | Inr h \<Rightarrow>
                            (case wait w h of
                               Inl e \<Rightarrow> (Inl e, [CallSendTransaction sgn toAddress v, CallWait h])
                             | Inr st \<Rightarrow>
                                 (Inr \<lparr>network = net_name, token = None, hash = h, status = st\<rparr>,
                                  [CallSendTransaction sgn toAddress v, CallWait h]))))))"

text \<open>\<^verbatim>\<open>this.config.networks?.[network]?.tokens?.[tokenName]?.decimals\<close>; no inherited member
  leads to a number.\<close>

definition decimalsFromConfig :: "client \<Rightarrow> string \<Rightarrow> string \<Rightarrow> nat option" where
  "decimalsFromConfig c net_name tokenName =
     (case networks (config c) of
        None \<Rightarrow> None
      | Some nets \<Rightarrow>
          (case obj_get nets net_name of
             None \<Rightarrow> None
           | Some nc \<Rightarrow>
               (case tokens nc of
                  None \<Rightarrow> None
                | Some tks \<Rightarrow>
                    (case obj_get tks tokenName of
                       None \<Rightarrow> None
                     | Some tk \<Rightarrow> decimals tk))))"

text \<open>
  The tail of \<^verbatim>\<open>transferToken\<close> on a real binding: signer, \<^verbatim>\<open>connect\<close>, scaling,
  \<^verbatim>\<open>transfer\<close>, \<^verbatim>\<open>wait\<close>. \<open>calls\<close> are the remote calls issued so far.
\<close>

definition submitTransfer :: "world \<Rightarrow> contract \<Rightarrow> provider slot \<Rightarrow> string \<Rightarrow> string \<Rightarrow> string \<Rightarrow> string \<Rightarrow> string \<Rightarrow> nat \<Rightarrow> rpc_call list \<Rightarrow> (error + TxResult) \<times> rpc_call list" where
  "submitTransfer w k prov net_name tokenName fromPrivateKey toAddress amount dec calls =
     (case newWallet w fromPrivateKey of
        Some e \<Rightarrow> (Inl e, calls)
      | None \<Rightarrow>
          let sgn = Wallet fromPrivateKey prov
          in (case parseUnits amount dec of
                Inl e \<Rightarrow> (Inl e, calls)
              | Inr v \<Rightarrow>
                  if has_method k ''transfer'' then
                    (case transfer w k sgn toAddress v of
                       Inl e \<Rightarrow> (Inl e, calls @ [CallTransfer k sgn toAddress v])
                     | Inr h \<Rightarrow>
                         (case wait w h of
                            Inl e \<Rightarrow> (Inl e, calls @ [CallTransfer k sgn toAddress v, CallWait h])
                          | Inr st \<Rightarrow>
                              (Inr \<lparr>network = net_name, token = Some tokenName,
                                    hash = h, status = st\<rparr>,
                               calls @ [CallTransfer k sgn toAddress v, CallWait h])))
                  else (Inl (TypeError ''connected.transfer is not a function''), calls)))"

definition transferToken :: "world \<Rightarrow> client \<Rightarrow> string \<Rightarrow> string \<Rightarrow> string \<Rightarrow> string \<Rightarrow> string \<Rightarrow> (error + TxResult) \<times> rpc_call list" where
  "transferToken w c net_name tokenName fromPrivateKey toAddress amount =
     (case getProvider c net_name of
        Absent \<Rightarrow> (Inl (Error (''Provider not initialized for '' @ net_name)), [])
      | prov \<Rightarrow>
          (case getContract w c net_name tokenName of
             Inl e \<Rightarrow> (Inl e, [])
           | Inr Absent \<Rightarrow>
               (Inl (Error (''Contract not found for '' @ tokenName @ '' on '' @ net_name)), [])
           | Inr (Inherited m) \<Rightarrow>
               (case decimalsFromConfig c net_name tokenName of
                  None \<Rightarrow> (Inl (TypeError ''contract.decimals is not a function''), [])
                | Some n \<Rightarrow>
                    (case newWallet w fromPrivateKey of
                       Some e \<Rightarrow> (Inl e, [])
                     | None \<Rightarrow> (Inl (TypeError ''contract.connect is not a function''), [])))
           | Inr (Own k) \<Rightarrow>
               (case decimalsFromConfig c net_name tokenName of
                  Some n \<Rightarrow>
                    submitTransfer w k prov net_name tokenName fromPrivateKey toAddress amount n []
                | None \<Rightarrow>
                    if has_method k ''decimals'' then
                      submitTransfer w k prov net_name tokenName fromPrivateKey toAddress amount
                        (case decimalsOf w k of Inl _ \<Rightarrow> 18 | Inr n \<Rightarrow> n) [CallDecimals k]
                    else (Inl (TypeError ''contract.decimals is not a function''), []))))"

subsection \<open>Well-formed objects and reading a token's configuration\<close>

text \<open>The keys of a JavaScript object are distinct; so are those of every object in a configuration.\<close>

definition wf_config :: "OathstoneConfig \<Rightarrow> bool" where
  "wf_config cfg =
     (case networks cfg of
        None \<Rightarrow> True
      | Some nets \<Rightarrow>
          wf_obj nets \<and>
          list_all (\<lambda>(n, net). case tokens net of None \<Rightarrow> True | Some tks \<Rightarrow> wf_obj tks) nets)"

text \<open>\<^verbatim>\<open>config.networks?.[network]?.tokens?.[tokenName]\<close>\<close>

definition tokenConfigOf :: "OathstoneConfig \<Rightarrow> string \<Rightarrow> string \<Rightarrow> TokenConfig option" where
  "tokenConfigOf cfg net_name tokenName =
     (case networks cfg of
        None \<Rightarrow> None
      | Some nets \<Rightarrow>
          (case obj_get nets net_name of
             None \<Rightarrow> None
           | Some nc \<Rightarrow>
               (case tokens nc of
                  None \<Rightarrow> None
                | Some tks \<Rightarrow> obj_get tks tokenName)))"

subsection \<open>The specification's wording, for comparison\<close>

text \<open>The operator \<^verbatim>\<open>a ?? b\<close> named by the specification: \<open>b\<close> only when \<open>a\<close> is absent.\<close>

definition spec_nullish_or :: "string option \<Rightarrow> string option \<Rightarrow> string option" where
  "spec_nullish_or a b = (case a of None \<Rightarrow> b | Some _ \<Rightarrow> a)"

text \<open>
  The failure condition the specification gives for normalization: \<open>networks\<close> absent, a
  network with neither endpoint, or a token with neither \<open>address\<close> nor \<open>contractAddress\<close>.
\<close>

definition spec_lacks_both_endpoints :: "NetworkConfig \<Rightarrow> bool" where
  "spec_lacks_both_endpoints net =
     (case rpcUrl net of None \<Rightarrow> True | Some r \<Rightarrow> testnet r = None \<and> mainnet r = None)"

definition spec_token_lacks_address :: "NetworkConfig \<Rightarrow> bool" where
  "spec_token_lacks_address net =
     (case tokens net of
        None \<Rightarrow> False
      | Some tks \<Rightarrow> list_ex (\<lambda>(t, tk). contractAddress tk = None \<and> address tk = None) tks)"

definition spec_normalize_fails :: "OathstoneConfig option \<Rightarrow> bool" where
  "spec_normalize_fails cfg =
     (case cfg of
        None \<Rightarrow> True
      | Some raw \<Rightarrow>
          (case networks raw of
             None \<Rightarrow> True
           | Some nets \<Rightarrow>
               list_ex (\<lambda>(n, net). spec_lacks_both_endpoints net) nets
               \<or> list_ex (\<lambda>(n, net). spec_token_lacks_address net) nets))"

subsection \<open>Example configurations\<close>

definition celo_rpc :: RpcUrls where
  "celo_rpc = \<lparr>testnet = Some ''https://alfajores-forno.celo-testnet.org'',
               mainnet = Some ''https://forno.celo.org''\<rparr>"

definition usd_token :: TokenConfig where
  "usd_token = \<lparr>contractAddress = Some ''0x45f1DcFE95db1e61240b8450C78ed467463dC8E9'',
                address = None, abi = None, decimals = None, symbol = None, name = None\<rparr>"

definition no_address_token :: TokenConfig where
  "no_address_token = \<lparr>contractAddress = None, address = None, abi = None,
                       decimals = None, symbol = None, name = None\<rparr>"

definition celo_network :: "TokenConfig obj option \<Rightarrow> NetworkConfig" where
  "celo_network tks = \<lparr>environment = 0, rpcUrl = Some celo_rpc, tokens = tks\<rparr>"

text \<open>A mainnet network whose \<open>rpcUrl\<close> has only the testnet endpoint.\<close>

definition polygon_network :: NetworkConfig where
  "polygon_network =
     \<lparr>environment = 1,
      rpcUrl = Some \<lparr>testnet = Some ''https://rpc-amoy.polygon.technology'', mainnet = None\<rparr>,
      tokens = None\<rparr>"

definition usd_contract :: contract where
  "usd_contract =
     Contract ''0x45f1DcFE95db1e61240b8450C78ed467463dC8E9'' ERC20_ABI
       (Some (JsonRpcProvider ''https://alfajores-forno.celo-testnet.org''))"

definition partial_config :: OathstoneConfig where
  "partial_config =
     \<lparr>networks = Some [(''celo'',
        celo_network (Some [(''USD'', usd_token), (''NEW'', no_address_token)]))]\<rparr>"

definition fresh_client :: "OathstoneConfig \<Rightarrow> client" where
  "fresh_client cfg = \<lparr>config = cfg, providers = [], contracts = []\<rparr>"

definition no_endpoint_config :: OathstoneConfig where
  "no_endpoint_config =
     \<lparr>networks = Some [(''celo'',
        \<lparr>environment = 0, rpcUrl = Some \<lparr>testnet = None, mainnet = None\<rparr>, tokens = None\<rparr>)]\<rparr>"

definition no_rpcUrl_config :: OathstoneConfig where
  "no_rpcUrl_config =
     \<lparr>networks = Some [(''celo'', \<lparr>environment = 0, rpcUrl = None, tokens = None\<rparr>)]\<rparr>"

definition two_net_config :: OathstoneConfig where
  "two_net_config =
     \<lparr>networks = Some [(''celo'', celo_network (Some [])),
                       (''polygon'', polygon_network\<lparr>tokens := Some []\<rparr>)]\<rparr>"

definition override_config :: OathstoneConfig where
  "override_config =
     \<lparr>networks = Some [(''celo'',
        celo_network (Some [(''USD'', usd_token\<lparr>decimals := Some 18\<rparr>)]))]\<rparr>"

definition override_client :: client where
  "override_client =
     \<lparr>config = override_config,
      providers = [(''celo'', JsonRpcProvider ''https://alfajores-forno.celo-testnet.org'')],
      contracts = [(''celo'', [(''USD'', usd_contract)])]\<rparr>"

definition holder :: string where
  "holder = ''0x000000000000000000000000000000000000dEaD''"

text \<open>A network that answers every call.\<close>

definition example_world :: world where
  "example_world =
     \<lparr>getBalance = (\<lambda>_ _. Inr 1500000000000000000),
      balanceOf = (\<lambda>_ _. Inr 0),
      decimalsOf = (\<lambda>_. Inr 6),
      newWallet = (\<lambda>_. None),
      sendTransaction = (\<lambda>_ _ _. Inr ''0xaa''),
      transfer = (\<lambda>_ _ _ _. Inr ''0xbb''),
      wait = (\<lambda>_. Inr (Some 1)),
      builtinMember = (\<lambda>_ _. Inr False)\<rparr>"

definition address_only_token :: TokenConfig where
  "address_only_token = \<lparr>contractAddress = None,
                         address = Some ''0x765DE816845861e75A25fCA122bb6898B8B1282a'',
                         abi = None, decimals = None, symbol = None, name = None\<rparr>"

definition both_token :: TokenConfig where
  "both_token = usd_token\<lparr>address := Some ''0x765DE816845861e75A25fCA122bb6898B8B1282a''\<rparr>"

text \<open>A token whose \<open>contractAddress\<close> is present but the empty string.\<close>

definition empty_alias_token :: TokenConfig where
  "empty_alias_token = address_only_token\<lparr>contractAddress := Some []\<rparr>"

definition alias_config :: "TokenConfig \<Rightarrow> OathstoneConfig" where
  "alias_config tk = \<lparr>networks = Some [(''celo'', celo_network (Some [(''cUSD'', tk)]))]\<rparr>"

text \<open>The connected and loaded client of a configuration without a decimals override.\<close>

definition plain_client :: client where
  "plain_client =
     \<lparr>config = \<lparr>networks = Some [(''celo'', celo_network (Some [(''USD'', usd_token)]))]\<rparr>,
      providers = [(''celo'', JsonRpcProvider ''https://alfajores-forno.celo-testnet.org'')],
      contracts = [(''celo'', [(''USD'', usd_contract)])]\<rparr>"

definition sender_key :: string where
  "sender_key = ''0x0123456789abcdef0123456789abcdef0123456789abcdef0123456789abcdef''"

text \<open>The amounts a list of remote calls submits: the values of its transfers.\<close>

fun call_value :: "rpc_call \<Rightarrow> int option" where
  "call_value (CallSendTransaction _ _ v) = Some v"
| "call_value (CallTransfer _ _ _ v) = Some v"
| "call_value _ = None"

definition submitted_values :: "rpc_call list \<Rightarrow> int list" where
  "submitted_values calls = List.map_filter call_value calls"

text \<open>
  A connected and loaded client with four tokens: two with different decimals overrides,
  one without, and one whose ABI override names no \<open>decimals\<close> method.
\<close>

definition celo_provider :: provider where
  "celo_provider = JsonRpcProvider ''https://alfajores-forno.celo-testnet.org''"






section \<open>Properties\<close>

subsection \<open>Objects\<close>

lemma obj_get_obj_set: "obj_get (obj_set k v obj) k' = (if k' = k then Some v else obj_get obj k')"
  by (simp add: obj_get_def obj_set_def update_conv')

lemma wf_obj_obj_set: "wf_obj (obj_set k v obj) = wf_obj obj"
  unfolding wf_obj_def obj_set_def
  by (induction obj) (auto simp: update_keys image_iff)

lemma obj_get_Nil: "obj_get [] k = None"
  by (simp add: obj_get_def)

lemma obj_get_Cons: "obj_get ((k, v) # obj) k' = (if k' = k then Some v else obj_get obj k')"
  by (simp add: obj_get_def)

lemma obj_set_Nil: "obj_set k v [] = [(k, v)]"
  by (simp add: obj_set_def)

lemma obj_set_Cons:
  "obj_set k v ((k', v') # obj) = (if k' = k then (k, v) # obj else (k', v') # obj_set k v obj)"
  by (simp add: obj_set_def)

lemmas obj_eval = obj_get_Nil obj_get_Cons obj_set_Nil obj_set_Cons

lemma obj_get_None_iff: "(obj_get obj k = None) = (k \<notin> fst ` set obj)"
  by (simp add: obj_get_def map_of_eq_None_iff)

lemma wf_obj_Cons: "wf_obj ((k, v) # obj) = (k \<notin> fst ` set obj \<and> wf_obj obj)"
  by (simp add: wf_obj_def)

lemmas client_eval = new_OathstoneClient_def validateConfig_def connectNetworks_def
  resolveRpcUrl_def js_or_def truthy_def obj_eval

subsection \<open>Endpoint resolution\<close>

text \<open>
  Claim C2. \<open>resolveRpcUrl\<close> returns an endpoint exactly when the endpoint selected by
  \<open>environment\<close> (testnet for 0, mainnet for every other value) is present and not empty, and
  then returns that endpoint; it fails exactly when the selected endpoint is absent or empty,
  whatever the other endpoint is, with the error \<open>Missing rpcUrl for network\<close>.
\<close>

theorem resolveRpcUrl_selected_endpoint:
  "(resolveRpcUrl nc = Inr u) =
     (u \<noteq> [] \<and> (\<exists>r. rpcUrl nc = Some r \<and>
        (if environment nc = 0 then testnet r else mainnet r) = Some u))
   \<and> isError (resolveRpcUrl nc) =
     (\<forall>r. rpcUrl nc = Some r \<longrightarrow>
        \<not> truthy (if environment nc = 0 then testnet r else mainnet r))
   \<and> (isError (resolveRpcUrl nc) \<longrightarrow>
        resolveRpcUrl nc = Inl (Error ''Missing rpcUrl for network (check testnet/mainnet keys)''))"
  by (auto simp: resolveRpcUrl_def isError_def truthy_def Let_def split: option.splits if_splits)

theorem resolveRpcUrl_selected_endpoint_witness:
  "resolveRpcUrl \<lparr>environment = 0,
       rpcUrl = Some \<lparr>testnet = Some ''https://alfajores-forno.celo-testnet.org'',
                      mainnet = Some ''https://forno.celo.org''\<rparr>,
       tokens = None\<rparr> = Inr ''https://alfajores-forno.celo-testnet.org''
   \<and> isError (resolveRpcUrl \<lparr>environment = 1,
       rpcUrl = Some \<lparr>testnet = Some ''https://alfajores-forno.celo-testnet.org'',
                      mainnet = None\<rparr>,
       tokens = None\<rparr>)"
  using resolveRpcUrl_selected_endpoint
          [of "\<lparr>environment = 0,
                 rpcUrl = Some \<lparr>testnet = Some ''https://alfajores-forno.celo-testnet.org'',
                                mainnet = Some ''https://forno.celo.org''\<rparr>,
                 tokens = None\<rparr>" "''https://alfajores-forno.celo-testnet.org''"]
        resolveRpcUrl_selected_endpoint
          [of "\<lparr>environment = 1,
                 rpcUrl = Some \<lparr>testnet = Some ''https://alfajores-forno.celo-testnet.org'',
                                mainnet = None\<rparr>,
                 tokens = None\<rparr>" "[]"]
  by (simp add: truthy_def)

subsection \<open>connectNetworks\<close>

lemma connectLoop_append:
  "\<forall>(m, nc) \<in> set pre. \<not> isError (resolveRpcUrl nc) \<Longrightarrow>
   connectLoop (pre @ rest) ps = connectLoop rest (snd (connectLoop pre ps))"
  by (induction pre arbitrary: ps) (auto simp: isError_def split: sum.splits)

lemma connectLoop_all_ok:
  "\<forall>(m, nc) \<in> set nets. \<not> isError (resolveRpcUrl nc) \<Longrightarrow> fst (connectLoop nets ps) = Inr True"
  by (induction nets arbitrary: ps) (auto simp: isError_def split: sum.splits)

lemma connectLoop_get_other:
  "m \<notin> fst ` set nets \<Longrightarrow> obj_get (snd (connectLoop nets ps)) m = obj_get ps m"
  by (induction nets arbitrary: ps) (auto simp: obj_get_obj_set split: sum.splits)

lemma connectLoop_get:
  "\<forall>(m, nc) \<in> set nets. \<not> isError (resolveRpcUrl nc) \<Longrightarrow> wf_obj nets \<Longrightarrow>
   (m, nc) \<in> set nets \<Longrightarrow> resolveRpcUrl nc = Inr url \<Longrightarrow>
   obj_get (snd (connectLoop nets ps)) m = Some (JsonRpcProvider url)"
proof (induction nets arbitrary: ps)
  case Nil
  then show ?case by simp
next
  case (Cons p nets)
  obtain k v where p: "p = (k, v)" by (cases p)
  from Cons.prems(1) p obtain u where u: "resolveRpcUrl v = Inr u"
    by (cases "resolveRpcUrl v") (auto simp: isError_def)
  show ?case
  proof (cases "(m, nc) = (k, v)")
    case True
    with Cons.prems(2) p have "m \<notin> fst ` set nets" by (auto simp: wf_obj_def)
    then show ?thesis using True p u Cons.prems(4)
      by (simp add: connectLoop_get_other obj_get_obj_set)
  next
    case False
    with Cons.prems(3) p have "(m, nc) \<in> set nets" by auto
    moreover from Cons.prems(2) have "wf_obj nets" by (simp add: wf_obj_def)
    ultimately show ?thesis using Cons.IH[of "obj_set k (JsonRpcProvider u) ps"] Cons.prems(1,4) p u
      by simp
  qed
qed




text \<open>
  Claim C10. When endpoint resolution fails for a network, \<open>connectNetworks\<close> fails with
  that error and the providers created for the networks iterated before it stay in the
  registry; the providers of all other names are left as they were.
\<close>

theorem connectNetworks_keeps_earlier_providers:
  assumes nets: "networks (config c) = Some (pre @ (n, bad) # post)"
      and wf: "wf_obj (pre @ (n, bad) # post)"
      and ok: "\<forall>(m, nc) \<in> set pre. \<not> isError (resolveRpcUrl nc)"
      and bad: "resolveRpcUrl bad = Inl e"
  shows "fst (connectNetworks c) = Inl e
     \<and> (\<forall>(m, nc) \<in> set pre. \<forall>url. resolveRpcUrl nc = Inr url \<longrightarrow>
           connectionOf (snd (connectNetworks c)) m = Some (JsonRpcProvider url))
     \<and> (\<forall>m. m \<notin> fst ` set pre \<longrightarrow> connectionOf (snd (connectNetworks c)) m = connectionOf c m)"
proof -
  have step: "connectLoop (pre @ (n, bad) # post) (providers c) = (Inl e, snd (connectLoop pre (providers c)))"
    using connectLoop_append[OF ok] bad by simp
  have res: "connectNetworks c = (Inl e, c\<lparr>providers := snd (connectLoop pre (providers c))\<rparr>)"
    using nets step by (simp add: connectNetworks_def)
  have wfpre: "wf_obj pre" using wf by (simp add: wf_obj_def)
  show ?thesis
    using res connectLoop_get[OF ok wfpre] connectLoop_get_other[of _ pre "providers c"]
    by (auto simp: connectionOf_def)
qed

theorem connectNetworks_keeps_earlier_providers_witness:
  "new_OathstoneClient
      (Some \<lparr>networks = Some [(''celo'', celo_network None), (''polygon'', polygon_network)]\<rparr>)
     = Inr (fresh_client two_net_config)
   \<and> fst (connectNetworks (fresh_client two_net_config))
       = Inl (Error ''Missing rpcUrl for network (check testnet/mainnet keys)'')
   \<and> connectionOf (snd (connectNetworks (fresh_client two_net_config))) ''celo''
       = Some (JsonRpcProvider ''https://alfajores-forno.celo-testnet.org'')
   \<and> connectionOf (snd (connectNetworks (fresh_client two_net_config))) ''polygon'' = None"
  using connectNetworks_keeps_earlier_providers
          [of "fresh_client two_net_config" "[(''celo'', celo_network (Some []))]" "''polygon''"
              "polygon_network\<lparr>tokens := Some []\<rparr>" "[]"
              "Error ''Missing rpcUrl for network (check testnet/mainnet keys)''"]
  by (simp add: two_net_config_def fresh_client_def celo_network_def celo_rpc_def polygon_network_def new_OathstoneClient_def validateConfig_def resolveRpcUrl_def
        wf_obj_def isError_def connectionOf_def obj_eval)

subsection \<open>loadContracts\<close>





lemma wf_config_tokens:
  assumes "wf_config cfg" "networks cfg = Some nets" "obj_get nets n = Some nc" "tokens nc = Some tks"
  shows "wf_obj tks"
proof -
  from assms(3) have "(n, nc) \<in> set nets" by (auto simp: obj_get_def dest: map_of_SomeD)
  with assms(1,2,4) show ?thesis by (auto simp: wf_config_def list_all_iff)
qed









subsection \<open>Reading the registries\<close>

lemma js_get_own: "obj_get obj k = Some v \<Longrightarrow> js_get obj k = Own v"
  by (simp add: js_get_def)

lemma js_get_Own_iff: "(js_get obj k = Own v) = (obj_get obj k = Some v)"
  by (simp add: js_get_def split: option.splits)

lemma js_get_plain_name:
  "k \<notin> set object_prototype_names \<Longrightarrow> obj_get obj k = None \<Longrightarrow> js_get obj k = Absent"
  by (simp add: js_get_def)

lemma getProvider_Own_iff: "(getProvider c n = Own p) = (connectionOf c n = Some p)"
  by (simp add: getProvider_def connectionOf_def js_get_Own_iff)

lemma getContract_binding: "bindingOf c n t = Some k \<Longrightarrow> getContract w c n t = Inr (Own k)"
  by (auto simp: getContract_def bindingOf_def js_get_own split: option.splits)

lemma getContract_Own_binding: "getContract w c n t = Inr (Own k) \<Longrightarrow> bindingOf c n t = Some k"
  by (auto simp: getContract_def bindingOf_def js_get_def split: option.splits sum.splits if_splits)

subsection \<open>Balances\<close>

text \<open>
  For a name that no object inherits, the guards do what they are written for: without a
  stored connection or binding the balance functions fail with the error naming the
  network or the token, and no remote call has been issued.
\<close>

lemma balance_guard_for_plain_names:
  "(n \<notin> set object_prototype_names \<and> connectionOf c n = None \<longrightarrow>
      getNativeBalance w c n a = (Inl (Error (''Provider not initialized for '' @ n)), []))
   \<and> (n \<notin> set object_prototype_names \<and> t \<notin> set object_prototype_names
        \<and> bindingOf c n t = None \<longrightarrow>
      getTokenBalance w c n t a = (Inl (Error (''Contract not found for '' @ t @ '' on '' @ n)), []))"
  by (auto simp: getNativeBalance_def getTokenBalance_def getProvider_def getContract_def
        connectionOf_def bindingOf_def js_get_def split: option.splits)

text \<open>
  Claim C8. The guards test \<^verbatim>\<open>this.providers[network]\<close> and
  \<^verbatim>\<open>this.contracts[network]?.[tokenName]\<close>, which also find inherited members. For the name
  \<open>toString\<close> no connection and no binding is stored, yet the guard is passed and the call
  fails with a \<open>TypeError\<close>, not with the error that names the missing connection or
  binding. No remote call is issued.
\<close>

theorem balance_guard_skipped_for_inherited_name:
  "connectionOf (fresh_client partial_config) ''toString'' = None
   \<and> getNativeBalance example_world (fresh_client partial_config) ''toString'' holder
        = (Inl (TypeError ''provider.getBalance is not a function''), [])
   \<and> bindingOf plain_client ''celo'' ''toString'' = None
   \<and> getTokenBalance example_world plain_client ''celo'' ''toString'' holder
        = (Inl (TypeError ''contract.balanceOf is not a function''), [])"
  by (simp add: fresh_client_def plain_client_def connectionOf_def bindingOf_def
        getNativeBalance_def getTokenBalance_def getProvider_def getContract_def js_get_def
        object_prototype_names_def obj_eval)

text \<open>
  Claim C1. On the client built from one network and one token with the override
  \<open>decimals = 18\<close>, connected and loaded, \<open>getTokenBalance\<close> issues the balance read and
  also the decimals read: it does not consult the override.
\<close>

theorem getTokenBalance_reads_decimals_despite_override:
  "new_OathstoneClient (Some override_config) = Inr (override_client\<lparr>providers := [], contracts := []\<rparr>)
   \<and> connectNetworks (override_client\<lparr>providers := [], contracts := []\<rparr>)
         = (Inr True, override_client\<lparr>contracts := []\<rparr>)
   \<and> loadContracts (override_client\<lparr>contracts := []\<rparr>) = (Inr True, override_client)
   \<and> decimalsFromConfig override_client ''celo'' ''USD'' = Some 18
   \<and> snd (getTokenBalance w override_client ''celo'' ''USD'' a)
         = [CallBalanceOf usd_contract a, CallDecimals usd_contract]"
  by (simp add: override_config_def override_client_def celo_network_def celo_rpc_def usd_token_def
        usd_contract_def client_eval loadContracts_def decimalsFromConfig_def
        getTokenBalance_def getContract_def js_get_def ERC20_ABI_def Let_def split: sum.splits)

subsection \<open>Normalization\<close>

lemma validateNetworks_fails_iff:
  "isError (validateNetworks nets normalized) = (\<exists>(n, net) \<in> set nets. rpcUrl net = None)"
proof (induction nets arbitrary: normalized)
  case Nil
  then show ?case by (simp add: isError_def)
next
  case (Cons p nets)
  obtain n net where p: "p = (n, net)" by (cases p)
  show ?case
  proof (cases "rpcUrl net")
    case None
    then show ?thesis using p by (simp add: isError_def)
  next
    case (Some r)
    then show ?thesis using p Cons.IH by (simp add: Let_def)
  qed
qed

text \<open>
  Claim C4, as amended. The constructor (the guard and \<open>validateConfig\<close>) fails exactly
  when the configuration or its \<open>networks\<close> is absent or some network has no \<open>rpcUrl\<close>
  object. A network whose \<open>rpcUrl\<close> holds neither endpoint and a token with neither
  address are accepted.
\<close>

theorem new_OathstoneClient_fails_iff:
  "isError (new_OathstoneClient cfg) =
     (\<forall>raw nets. cfg = Some raw \<and> networks raw = Some nets \<longrightarrow>
        (\<exists>(n, net) \<in> set nets. rpcUrl net = None))"
proof (cases cfg)
  case None
  then show ?thesis by (simp add: new_OathstoneClient_def isError_def)
next
  case (Some raw)
  show ?thesis
  proof (cases "networks raw")
    case None
    then show ?thesis using Some by (simp add: new_OathstoneClient_def isError_def)
  next
    case nets: (Some nets)
    have "isError (new_OathstoneClient cfg) = isError (validateNetworks nets nets)"
      using Some nets
      by (simp add: new_OathstoneClient_def validateConfig_def isError_def split: sum.splits)
    then show ?thesis using Some nets by (simp add: validateNetworks_fails_iff)
  qed
qed

theorem new_OathstoneClient_fails_iff_witness:
  "\<not> isError (new_OathstoneClient (Some partial_config))
   \<and> \<not> isError (new_OathstoneClient (Some no_endpoint_config))
   \<and> isError (new_OathstoneClient (Some no_rpcUrl_config))
   \<and> isError (new_OathstoneClient (Some \<lparr>networks = None\<rparr>))"
  using new_OathstoneClient_fails_iff [of "Some partial_config"]
        new_OathstoneClient_fails_iff [of "Some no_endpoint_config"]
        new_OathstoneClient_fails_iff [of "Some no_rpcUrl_config"]
        new_OathstoneClient_fails_iff [of "Some \<lparr>networks = None\<rparr>"]
  by (simp add: partial_config_def no_endpoint_config_def no_rpcUrl_config_def celo_network_def)

text \<open>
  Claim C4 as stated fails: the specification's condition holds of a configuration with a
  token that has no address, and of one whose \<open>rpcUrl\<close> has neither endpoint, yet the
  constructor accepts both.
\<close>

theorem normalize_accepts_incomplete_config:
  "isError (new_OathstoneClient (Some partial_config)) \<noteq> spec_normalize_fails (Some partial_config)
   \<and> isError (new_OathstoneClient (Some no_endpoint_config))
        \<noteq> spec_normalize_fails (Some no_endpoint_config)"
  by (simp add: partial_config_def no_endpoint_config_def celo_network_def celo_rpc_def
        usd_token_def no_address_token_def client_eval isError_def
        spec_normalize_fails_def spec_lacks_both_endpoints_def spec_token_lacks_address_def)

lemma normalizeTokens_get_other:
  "obj_get tks t = None \<Longrightarrow> obj_get (normalizeTokens tks acc) t = obj_get acc t"
  by (induction tks arbitrary: acc)
     (auto simp: obj_get_Cons obj_get_obj_set Let_def split: if_splits)

lemma normalizeTokens_get:
  "wf_obj tks \<Longrightarrow> obj_get tks t = Some tk \<Longrightarrow>
   obj_get (normalizeTokens tks acc) t
     = Some (tk\<lparr>contractAddress := js_or (contractAddress tk) (address tk)\<rparr>)"
proof (induction tks arbitrary: acc)
  case Nil
  then show ?case by (simp add: obj_get_Nil)
next
  case (Cons p tks)
  obtain k v where p: "p = (k, v)" by (cases p)
  show ?case
  proof (cases "t = k")
    case True
    with Cons.prems p have v: "v = tk" and none: "obj_get tks t = None"
      by (auto simp: obj_get_Cons wf_obj_Cons obj_get_None_iff)
    show ?thesis using True p v normalizeTokens_get_other[OF none]
      by (simp add: obj_get_obj_set Let_def)
  next
    case False
    with Cons.prems p have "wf_obj tks" "obj_get tks t = Some tk"
      by (auto simp: obj_get_Cons wf_obj_Cons)
    from Cons.IH[OF this] show ?thesis using p False
      by (simp add: Let_def)
  qed
qed

lemma validateNetworks_get_other:
  "validateNetworks nets acc = Inr res \<Longrightarrow> obj_get nets n = None \<Longrightarrow>
   obj_get res n = obj_get acc n"
proof (induction nets arbitrary: acc)
  case Nil
  then show ?case by simp
next
  case (Cons p nets)
  obtain k v where p: "p = (k, v)" by (cases p)
  from Cons.prems p have nk: "n \<noteq> k" and none: "obj_get nets n = None"
    by (auto simp: obj_get_Cons split: if_splits)
  from Cons.prems(1) p have r: "rpcUrl v \<noteq> None" by (auto split: if_splits)
  with Cons.prems(1) p obtain acc' where
    acc': "validateNetworks nets acc' = Inr res"
      "acc' = obj_set k (v\<lparr>tokens := Some (normalizeTokens (case tokens v of None \<Rightarrow> [] | Some ts \<Rightarrow> ts) [])\<rparr>) acc"
    by (auto simp: Let_def)
  from Cons.IH[OF acc'(1) none] show ?case using acc'(2) nk by (simp add: obj_get_obj_set)
qed

lemma validateNetworks_get:
  "validateNetworks nets acc = Inr res \<Longrightarrow> wf_obj nets \<Longrightarrow> obj_get nets n = Some net \<Longrightarrow>
   obj_get res n
     = Some (net\<lparr>tokens := Some (normalizeTokens (case tokens net of None \<Rightarrow> [] | Some ts \<Rightarrow> ts) [])\<rparr>)"
proof (induction nets arbitrary: acc)
  case Nil
  then show ?case by (simp add: obj_get_Nil)
next
  case (Cons p nets)
  obtain k v where p: "p = (k, v)" by (cases p)
  from Cons.prems(1) p have r: "rpcUrl v \<noteq> None" by (auto split: if_splits)
  with Cons.prems(1) p obtain acc' where
    acc': "validateNetworks nets acc' = Inr res"
      "acc' = obj_set k (v\<lparr>tokens := Some (normalizeTokens (case tokens v of None \<Rightarrow> [] | Some ts \<Rightarrow> ts) [])\<rparr>) acc"
    by (auto simp: Let_def)
  show ?case
  proof (cases "n = k")
    case True
    with Cons.prems p have v: "v = net" and none: "obj_get nets n = None"
      by (auto simp: obj_get_Cons wf_obj_Cons obj_get_None_iff)
    from validateNetworks_get_other[OF acc'(1) none] show ?thesis
      using acc'(2) True v by (simp add: obj_get_obj_set)
  next
    case False
    with Cons.prems p have "wf_obj nets" "obj_get nets n = Some net"
      by (auto simp: obj_get_Cons wf_obj_Cons)
    from Cons.IH[OF acc'(1) this] show ?thesis .
  qed
qed

lemma validateConfig_tokenConfigOf:
  assumes wf: "wf_config cfg" and v: "validateConfig cfg = Inr cfg'"
      and tk: "tokenConfigOf cfg n t = Some tk"
  shows "tokenConfigOf cfg' n t
     = Some (tk\<lparr>contractAddress := js_or (contractAddress tk) (address tk)\<rparr>)"
proof -
  from tk obtain nets net tks where
    nets: "networks cfg = Some nets" and net: "obj_get nets n = Some net"
    and tks: "tokens net = Some tks" and t: "obj_get tks t = Some tk"
    by (auto simp: tokenConfigOf_def split: option.splits)
  from v nets obtain res where
    res: "validateNetworks nets nets = Inr res" and cfg': "cfg' = cfg\<lparr>networks := Some res\<rparr>"
    by (auto simp: validateConfig_def split: sum.splits)
  from wf nets have wfn: "wf_obj nets" by (simp add: wf_config_def)
  have wft: "wf_obj tks" using wf_config_tokens[OF wf nets net tks] .
  from validateNetworks_get[OF res wfn net] tks
  have "obj_get res n = Some (net\<lparr>tokens := Some (normalizeTokens tks [])\<rparr>)" by simp
  then show ?thesis using cfg' normalizeTokens_get[OF wft t]
    by (simp add: tokenConfigOf_def)
qed

text \<open>
  Claim C3, as amended. For a well-formed configuration that \<open>validateConfig\<close> accepts, a
  token supplying a usable (present, non-empty) \<open>contractAddress\<close> or \<open>address\<close> gets a
  canonical \<open>contractAddress\<close> that is present and non-empty: its own \<open>contractAddress\<close> when
  that is usable, otherwise its \<open>address\<close> (the operator \<^verbatim>\<open>||\<close>); its other fields are kept.
\<close>

theorem validateConfig_canonical_address:
  assumes wf: "wf_config cfg" and v: "validateConfig cfg = Inr cfg'"
      and tk: "tokenConfigOf cfg n t = Some tk"
      and supplied: "truthy (contractAddress tk) \<or> truthy (address tk)"
  shows "\<exists>a. a \<noteq> []
          \<and> (if truthy (contractAddress tk) then contractAddress tk else address tk) = Some a
          \<and> tokenConfigOf cfg' n t = Some (tk\<lparr>contractAddress := Some a\<rparr>)"
  using validateConfig_tokenConfigOf[OF wf v tk] supplied
  by (auto simp: js_or_def truthy_def split: option.splits)

theorem validateConfig_canonical_address_witness:
  "wf_config (alias_config address_only_token)
   \<and> tokenConfigOf (alias_config address_only_token) ''celo'' ''cUSD'' = Some address_only_token
   \<and> truthy (address address_only_token)
   \<and> tokenConfigOf
        (alias_config (address_only_token\<lparr>contractAddress := address address_only_token\<rparr>))
        ''celo'' ''cUSD''
       = Some (address_only_token
                 \<lparr>contractAddress := Some ''0x765DE816845861e75A25fCA122bb6898B8B1282a''\<rparr>)
   \<and> truthy (contractAddress both_token) \<and> truthy (address both_token)
   \<and> validateConfig (alias_config both_token) = Inr (alias_config both_token)
   \<and> map_option contractAddress (tokenConfigOf (alias_config both_token) ''celo'' ''cUSD'')
       = Some (Some ''0x45f1DcFE95db1e61240b8450C78ed467463dC8E9'')"
proof -
  have wf2: "wf_config (alias_config both_token)"
    by (simp add: alias_config_def wf_config_def wf_obj_def celo_network_def)
  have v2: "validateConfig (alias_config both_token) = Inr (alias_config both_token)"
    by (simp add: alias_config_def celo_network_def celo_rpc_def address_only_token_def
          both_token_def usd_token_def client_eval)
  have tk2: "tokenConfigOf (alias_config both_token) ''celo'' ''cUSD'' = Some both_token"
    by (simp add: alias_config_def celo_network_def tokenConfigOf_def obj_eval)
  have sup2: "truthy (contractAddress both_token) \<or> truthy (address both_token)"
    by (simp add: both_token_def usd_token_def truthy_def)
  note both = validateConfig_canonical_address[OF wf2 v2 tk2 sup2]
  have wf: "wf_config (alias_config address_only_token)"
    by (simp add: alias_config_def wf_config_def wf_obj_def celo_network_def)
  have v: "validateConfig (alias_config address_only_token)
             = Inr (alias_config (address_only_token\<lparr>contractAddress := address address_only_token\<rparr>))"
    by (simp add: alias_config_def celo_network_def celo_rpc_def address_only_token_def
          both_token_def usd_token_def client_eval)
  have tk: "tokenConfigOf (alias_config address_only_token) ''celo'' ''cUSD'' = Some address_only_token"
    by (simp add: alias_config_def celo_network_def tokenConfigOf_def obj_eval)
  have sup: "truthy (contractAddress address_only_token) \<or> truthy (address address_only_token)"
    by (simp add: address_only_token_def truthy_def)
  from validateConfig_canonical_address[OF wf v tk sup] both wf tk sup v2
  show ?thesis by (simp add: address_only_token_def both_token_def usd_token_def truthy_def)
qed

text \<open>
  Claim C3 as stated fails: with \<open>contractAddress\<close> the empty string and \<open>address\<close> set, the
  canonical address is \<open>address\<close>, not \<^verbatim>\<open>contractAddress ?? address\<close> (which is the empty
  string).
\<close>

theorem validateConfig_empty_contractAddress:
  "validateConfig (alias_config empty_alias_token)
     = Inr (alias_config (empty_alias_token\<lparr>contractAddress := address empty_alias_token\<rparr>))
   \<and> map_option contractAddress
        (tokenConfigOf (alias_config (empty_alias_token\<lparr>contractAddress := address empty_alias_token\<rparr>))
           ''celo'' ''cUSD'')
      \<noteq> Some (spec_nullish_or (contractAddress empty_alias_token) (address empty_alias_token))"
  by (simp add: alias_config_def celo_network_def celo_rpc_def empty_alias_token_def
        address_only_token_def client_eval tokenConfigOf_def spec_nullish_or_def)

subsection \<open>Unit conversion on examples\<close>

lemma replicate_numeral: "replicate (numeral v) x = x # replicate (numeral v - 1) x"
  by (simp add: numeral_eq_Suc)

lemmas conv_eval = parseUnits_def parseEther_def formatUnits_def formatEther_def showNat.simps
  digit_char_def trimZeros_def is_digit_def digits_to_nat_def digit_val_def Let_def
  replicate_numeral

lemma parseUnits_examples:
  "parseUnits ''5.5'' 6 = Inr 5500000"
  "parseUnits ''0.0000001'' 6 = Inl InvalidAmountError"
  "parseUnits ''1.5'' 18 = Inr 1500000000000000000"
  "parseUnits ''0.01'' 18 = Inr 10000000000000000"
  by (simp_all add: conv_eval)

lemma formatUnits_examples:
  "formatUnits 1500000000000000000 18 = ''1.5''"
  "formatUnits 0 18 = ''0.0''"
  "formatUnits 0 6 = ''0.0''"
  "formatUnits 5500000 6 = ''5.5''"
  by (simp_all add: conv_eval)

lemma example_clients_registry:
  "getProvider plain_client ''celo'' = Own celo_provider"
  "getContract w plain_client ''celo'' ''USD'' = Inr (Own usd_contract)"
  "decimalsFromConfig plain_client ''celo'' ''USD'' = None"
  "has_method usd_contract ''balanceOf''"
  "has_method usd_contract ''decimals''"
  "has_method usd_contract ''transfer''"
  by (simp_all add: plain_client_def celo_network_def usd_token_def usd_contract_def
        celo_provider_def ERC20_ABI_def getProvider_def getContract_def js_get_def
        decimalsFromConfig_def obj_eval)


subsection \<open>Transfers\<close>

lemma submitted_values_simps:
  "submitted_values [] = []"
  "submitted_values (CallDecimals k # cs) = submitted_values cs"
  "submitted_values (CallWait h # cs) = submitted_values cs"
  "submitted_values (CallBalanceOf k a # cs) = submitted_values cs"
  "submitted_values (CallGetBalance p a # cs) = submitted_values cs"
  "submitted_values (CallTransfer k s t v # cs) = v # submitted_values cs"
  "submitted_values (CallSendTransaction s t v # cs) = v # submitted_values cs"
  by (simp_all add: submitted_values_def)







subsection \<open>Decimal strings\<close>

lemma digit_cases: "n < 10 \<Longrightarrow> n \<in> {0, 1, 2, 3, 4, 5, 6, 7, 8, 9::nat}"
  by auto

lemma digit_char_props:
  assumes "n < 10"
  shows "is_digit (digit_char n)" "digit_val (digit_char n) = n"
  using digit_cases[OF assms]
  by (auto simp: is_digit_def digit_char_def digit_val_def)

lemma is_digit_props:
  assumes "is_digit ch"
  shows "digit_val ch < 10" "(digit_val ch = 0) = (ch = CHR ''0'')"
        "ch \<noteq> CHR ''.''" "ch \<noteq> CHR ''-''"
  using assms by (auto simp: is_digit_def digit_val_def)

lemma digits_foldl:
  "foldl (\<lambda>acc ch. acc * 10 + digit_val ch) a ds
     = a * 10 ^ length ds + foldl (\<lambda>acc ch. acc * 10 + digit_val ch) 0 ds"
proof (induction ds arbitrary: a)
  case Nil
  then show ?case by simp
next
  case (Cons ch ds)
  show ?case
    using Cons.IH[of "a * 10 + digit_val ch"] Cons.IH[of "digit_val ch"]
    by (simp add: algebra_simps)
qed

lemma digits_to_nat_Nil: "digits_to_nat [] = 0"
  by (simp add: digits_to_nat_def)

lemma digits_to_nat_Cons:
  "digits_to_nat (ch # ds) = digit_val ch * 10 ^ length ds + digits_to_nat ds"
  using digits_foldl[of "digit_val ch" ds] by (simp add: digits_to_nat_def)

lemma digits_to_nat_append:
  "digits_to_nat (xs @ ys) = digits_to_nat xs * 10 ^ length ys + digits_to_nat ys"
  by (induction xs) (simp_all add: digits_to_nat_Nil digits_to_nat_Cons algebra_simps power_add)

lemma digits_to_nat_bound:
  "list_all is_digit ds \<Longrightarrow> digits_to_nat ds < 10 ^ length ds"
proof (induction ds)
  case Nil
  then show ?case by (simp add: digits_to_nat_Nil)
next
  case (Cons ch ds)
  then have "digit_val ch \<le> 9" and "digits_to_nat ds < 10 ^ length ds"
    using is_digit_props(1)[of ch] by auto
  then have "digit_val ch * 10 ^ length ds + digits_to_nat ds < 9 * 10 ^ length ds + 10 ^ length ds"
    by (meson add_le_less_mono mult_le_mono1)
  then show ?case by (simp add: digits_to_nat_Cons)
qed

lemma digits_to_nat_zeros: "digits_to_nat (replicate k CHR ''0'') = 0"
  by (induction k) (simp_all add: digits_to_nat_Nil digits_to_nat_Cons digit_val_def)

lemma digits_to_nat_eq_0:
  "list_all is_digit ds \<Longrightarrow> (digits_to_nat ds = 0) = list_all (\<lambda>ch. ch = CHR ''0'') ds"
  by (induction ds) (auto simp: digits_to_nat_Nil digits_to_nat_Cons is_digit_props(2))

lemma showNat_digits: "list_all is_digit (showNat n)"
proof (induction n rule: showNat.induct)
  case (1 n)
  show ?case
  proof (cases "n < 10")
    case True
    then show ?thesis by (subst showNat.simps) (simp add: digit_char_props)
  next
    case False
    with 1 show ?thesis by (subst showNat.simps) (simp add: digit_char_props)
  qed
qed

lemma showNat_value: "digits_to_nat (showNat n) = n"
proof (induction n rule: showNat.induct)
  case (1 n)
  show ?case
  proof (cases "n < 10")
    case True
    then show ?thesis
      by (subst showNat.simps) (simp add: digits_to_nat_Cons digits_to_nat_Nil digit_char_props)
  next
    case False
    with 1 show ?thesis
      by (subst showNat.simps)
         (simp add: digits_to_nat_append digits_to_nat_Cons digits_to_nat_Nil digit_char_props)
  qed
qed

lemma showNat_nonempty: "showNat n \<noteq> []"
  by (subst showNat.simps) simp

lemma showNat_length: "n < 10 ^ d \<Longrightarrow> 0 < d \<Longrightarrow> length (showNat n) \<le> d"
proof (induction n arbitrary: d rule: showNat.induct)
  case (1 n)
  show ?case
  proof (cases "n < 10")
    case True
    then show ?thesis using "1.prems" by (subst showNat.simps) simp
  next
    case False
    from "1.prems" obtain d' where d: "d = Suc d'" by (cases d) auto
    with False "1.prems" have "0 < d'" by (cases d') auto
    moreover from "1.prems" d have "n div 10 < 10 ^ d'" by (simp add: less_mult_imp_div_less mult.commute)
    ultimately have "length (showNat (n div 10)) \<le> d'" using "1.IH"[OF False] by simp
    then show ?thesis using False d by (subst showNat.simps) simp
  qed
qed

lemma trimZeros_digits:
  assumes "list_all is_digit frac"
  shows "list_all is_digit (trimZeros frac)"
proof -
  let ?t = "dropWhile (\<lambda>ch. ch = CHR ''0'') (rev frac)"
  have z: "list_all is_digit ''0''" by (simp add: is_digit_def)
  have "set ?t \<subseteq> set frac" by (auto dest: set_dropWhileD)
  with assms have "list_all is_digit (rev ?t)" by (auto simp: list_all_iff)
  with z show ?thesis unfolding trimZeros_def Let_def by (simp only: if_split) simp
qed

lemma trimZeros_restore:
  assumes "frac \<noteq> []"
  shows "trimZeros frac @ replicate (length frac - length (trimZeros frac)) CHR ''0'' = frac"
proof -
  let ?P = "\<lambda>ch. ch = CHR ''0''"
  let ?z = "takeWhile ?P (rev frac)" and ?t = "dropWhile ?P (rev frac)"
  have tz: "trimZeros frac = (if ?t = [] then ''0'' else rev ?t)"
    unfolding trimZeros_def Let_def by (simp only: rev_is_Nil_conv)
  show ?thesis
  proof (cases "?t = []")
    case False
    have "rev (?z @ ?t) = rev (rev frac)" by (simp only: takeWhile_dropWhile_id)
    then have split: "rev ?t @ rev ?z = frac" by (simp only: rev_append rev_rev_ident)
    have "\<forall>x \<in> set ?z. x = CHR ''0''" by (auto dest: set_takeWhileD)
    then have "replicate (length ?z) CHR ''0'' = ?z" by (rule replicate_length_same)
    then have "rev (replicate (length ?z) CHR ''0'') = rev ?z" by (simp only:)
    then have zeros: "replicate (length ?z) CHR ''0'' = rev ?z" by (simp only: rev_replicate)
    have "length (rev ?t @ rev ?z) = length frac" by (simp only: split)
    then have len: "length frac - length (rev ?t) = length ?z" by simp
    from tz have "trimZeros frac = rev ?t" by (simp only: False if_False)
    then show ?thesis by (simp only: len zeros split)
  next
    case True
    from tz have t: "trimZeros frac = ''0''" by (simp only: True simp_thms if_True)
    from True have "\<forall>x \<in> set frac. x = CHR ''0''" by (simp add: dropWhile_eq_Nil_conv)
    then have all0: "replicate (length frac) CHR ''0'' = frac" by (rule replicate_length_same)
    from assms obtain k where k: "length frac = Suc k" by (cases frac) auto
    have "trimZeros frac @ replicate (length frac - length (trimZeros frac)) CHR ''0''
            = replicate (Suc k) CHR ''0''"
      by (simp add: t k)
    also have "\<dots> = frac" using all0[unfolded k] .
    finally show ?thesis .
  qed
qed

lemma trimZeros_length:
  assumes "frac \<noteq> []"
  shows "length (trimZeros frac) \<le> length frac"
proof -
  have "length (trimZeros frac @ replicate (length frac - length (trimZeros frac)) CHR ''0'')
          = length frac"
    by (simp only: trimZeros_restore[OF assms])
  then show ?thesis by simp
qed

lemma trimZeros_nonempty: "trimZeros frac \<noteq> []"
  by (simp add: trimZeros_def Let_def)

lemma digits_no_point: "list_all is_digit w \<Longrightarrow> \<forall>ch \<in> set w. ch \<noteq> CHR ''.''"
  using is_digit_props(3) by (auto simp: list_all_iff)

lemma not_negative:
  assumes "list_all is_digit w"
  shows "\<not> (w @ CHR ''.'' # f \<noteq> [] \<and> hd (w @ CHR ''.'' # f) = CHR ''-'')"
        "\<not> (w \<noteq> [] \<and> hd w = CHR ''-'')"
  using assms is_digit_props(4) by (cases w; auto)+

lemma parseUnits_decimal:
  assumes w: "list_all is_digit w" and f: "list_all is_digit f" and ne: "w \<noteq> [] \<or> f \<noteq> []"
  shows "parseUnits (w @ ''.'' @ f) d =
     (if list_all (\<lambda>ch. ch = CHR ''0'') (drop d f)
      then Inr (int (digits_to_nat (w @ take d f @ replicate (d - length f) CHR ''0'')))
      else Inl InvalidAmountError)"
proof -
  have tw: "takeWhile (\<lambda>ch. ch \<noteq> CHR ''.'') (w @ CHR ''.'' # f) = w"
    using digits_no_point[OF w] by (simp add: takeWhile_append2)
  have dw: "dropWhile (\<lambda>ch. ch \<noteq> CHR ''.'') (w @ CHR ''.'' # f) = CHR ''.'' # f"
    using digits_no_point[OF w] by (simp add: dropWhile_append2)
  show ?thesis
    using not_negative(1)[OF w, of f] w f ne
    by (simp add: parseUnits_def Let_def tw dw del: hd_append2 hd_append)
qed

lemma parseUnits_integer:
  assumes w: "list_all is_digit w" and ne: "w \<noteq> []"
  shows "parseUnits w d = Inr (int (digits_to_nat w * 10 ^ d))"
proof -
  have tw: "takeWhile (\<lambda>ch. ch \<noteq> CHR ''.'') w = w"
    using digits_no_point[OF w] by (simp add: takeWhile_eq_all_conv)
  have dw: "dropWhile (\<lambda>ch. ch \<noteq> CHR ''.'') w = []"
    using digits_no_point[OF w] by simp
  show ?thesis
    using not_negative(2)[OF w] w ne
    by (simp add: parseUnits_def Let_def tw dw digits_to_nat_append digits_to_nat_zeros)
qed

subsection \<open>Exactness of the conversions\<close>

lemma parse_format_roundtrip: "parseUnits (formatUnits v d) d = Inr (int v)"
proof (cases "d = 0")
  case True
  then show ?thesis
    using parseUnits_integer[OF showNat_digits showNat_nonempty, of v 0]
    by (simp add: formatUnits_def showNat_value)
next
  case False
  let ?W = "showNat (v div 10 ^ d)" and ?digs = "showNat (v mod 10 ^ d)"
  let ?F = "replicate (d - length ?digs) CHR ''0'' @ ?digs"
  let ?T = "trimZeros ?F"
  from False have len_digs: "length ?digs \<le> d" by (simp add: showNat_length)
  then have lenF: "length ?F = d" by simp
  with False have neF: "?F \<noteq> []" by auto
  have "is_digit CHR ''0''" by (simp add: is_digit_def)
  then have digF: "list_all is_digit ?F"
    using showNat_digits[of "v mod 10 ^ d"] by (auto simp: list_all_iff)
  have digT: "list_all is_digit ?T" using trimZeros_digits[OF digF] .
  have lenT: "length ?T \<le> d" using trimZeros_length[OF neF] lenF by simp
  have restore: "?T @ replicate (d - length ?T) CHR ''0'' = ?F"
    using trimZeros_restore[OF neF] lenF by simp
  have valF: "digits_to_nat ?F = v mod 10 ^ d"
    by (simp add: digits_to_nat_append digits_to_nat_zeros showNat_value)
  have fmt: "formatUnits v d = ?W @ ''.'' @ ?T"
    using False by (simp add: formatUnits_def Let_def)
  have "parseUnits (?W @ ''.'' @ ?T) d = Inr (int (digits_to_nat (?W @ ?T @ replicate (d - length ?T) CHR ''0'')))"
    using parseUnits_decimal[OF showNat_digits digT, of "v div 10 ^ d" d] lenT showNat_nonempty
    by simp
  also have "digits_to_nat (?W @ ?T @ replicate (d - length ?T) CHR ''0'') = digits_to_nat (?W @ ?F)"
    by (simp only: restore)
  also have "\<dots> = v div 10 ^ d * 10 ^ d + v mod 10 ^ d"
    by (simp only: digits_to_nat_append[of ?W ?F] lenF valF showNat_value)
  also have "\<dots> = v" by (rule div_mult_mod_eq)
  finally show ?thesis by (simp only: fmt)
qed

lemma pow10_dvd_small: "(B::nat) < 10 ^ k \<Longrightarrow> (10 ^ k dvd B) = (B = 0)"
  by (auto dest: dvd_imp_le)

lemma parseUnits_exact:
  assumes w: "list_all is_digit w" and f: "list_all is_digit f" and ne: "w \<noteq> [] \<or> f \<noteq> []"
  shows "(\<forall>v. parseUnits (w @ ''.'' @ f) d = Inr v \<longrightarrow>
            v * 10 ^ length f
              = int ((digits_to_nat w * 10 ^ length f + digits_to_nat f) * 10 ^ d))
       \<and> isError (parseUnits (w @ ''.'' @ f) d) = (\<not> 10 ^ length f dvd digits_to_nat f * 10 ^ d)"
proof (cases "length f \<le> d")
  case True
  then have drop: "drop d f = []" and take: "take d f = f" by simp_all
  from True have pw: "(10::nat) ^ (d - length f) * 10 ^ length f = 10 ^ d"
    by (simp add: power_add[symmetric])
  have res: "parseUnits (w @ ''.'' @ f) d
      = Inr (int (digits_to_nat w * 10 ^ d + digits_to_nat f * 10 ^ (d - length f)))"
    using parseUnits_decimal[OF w f ne, of d] True
    by (simp add: drop take digits_to_nat_append digits_to_nat_zeros)
  have "(digits_to_nat w * 10 ^ d + digits_to_nat f * 10 ^ (d - length f)) * 10 ^ length f
      = (digits_to_nat w * 10 ^ length f + digits_to_nat f) * 10 ^ d"
    using pw by (simp add: algebra_simps)
  then have eq: "int (digits_to_nat w * 10 ^ d + digits_to_nat f * 10 ^ (d - length f)) * 10 ^ length f
      = int ((digits_to_nat w * 10 ^ length f + digits_to_nat f) * 10 ^ d)"
    by (metis of_nat_mult of_nat_numeral of_nat_power)
  have "(10::nat) ^ length f dvd 10 ^ d" using True by (rule le_imp_power_dvd)
  then have dv: "10 ^ length f dvd digits_to_nat f * 10 ^ d" by (rule dvd_mult)
  show ?thesis using res eq dv by (simp add: isError_def)
next
  case False
  let ?a = "take d f" and ?b = "drop d f"
  let ?A = "digits_to_nat ?a" and ?B = "digits_to_nat ?b"
  from False have la: "length ?a = d" and lb: "length ?b = length f - d" by simp_all
  from False have lf: "length f = length ?b + d" by simp
  have digb: "list_all is_digit ?b" using f by (auto simp: list_all_iff dest: in_set_dropD)
  have F: "digits_to_nat f = ?A * 10 ^ length ?b + ?B"
    using digits_to_nat_append[of ?a ?b] by simp
  have Bsmall: "?B < 10 ^ length ?b" using digits_to_nat_bound[OF digb] .
  have zero_iff: "list_all (\<lambda>ch. ch = CHR ''0'') ?b = (?B = 0)"
    using digits_to_nat_eq_0[OF digb] by simp
  have pw: "(10::nat) ^ length f = 10 ^ length ?b * 10 ^ d"
    by (subst lf) (simp add: power_add)
  have "(10 ^ length f dvd digits_to_nat f * 10 ^ d) = (10 ^ length ?b * 10 ^ d dvd (?A * 10 ^ length ?b + ?B) * 10 ^ d)"
    by (simp only: pw[symmetric] F[symmetric])
  also have "\<dots> = (10 ^ length ?b dvd ?A * 10 ^ length ?b + ?B)" by simp
  also have "\<dots> = (10 ^ length ?b dvd ?B)"
    by (metis dvd_add_right_iff dvd_triv_right)
  also have "\<dots> = (?B = 0)" using pow10_dvd_small[OF Bsmall] .
  finally have dv: "(10 ^ length f dvd digits_to_nat f * 10 ^ d) = (?B = 0)" .
  from False have rep: "replicate (d - length f) CHR ''0'' = []" by simp
  have res: "parseUnits (w @ ''.'' @ f) d
      = (if ?B = 0 then Inr (int (digits_to_nat w * 10 ^ d + ?A)) else Inl InvalidAmountError)"
  proof -
    have pad: "w @ ?a @ replicate (d - length f) CHR ''0'' = w @ ?a"
      by (simp only: rep append_Nil2)
    have val: "digits_to_nat (w @ ?a) = digits_to_nat w * 10 ^ d + ?A"
      using digits_to_nat_append[of w ?a] by (simp only: la)
    show ?thesis
      using parseUnits_decimal[OF w f ne, of d] by (simp only: zero_iff pad val)
  qed
  have eq: "?B = 0 \<Longrightarrow> int (digits_to_nat w * 10 ^ d + ?A) * 10 ^ length f
      = int ((digits_to_nat w * 10 ^ length f + digits_to_nat f) * 10 ^ d)"
  proof -
    assume B0: "?B = 0"
    have "(digits_to_nat w * 10 ^ d + ?A) * 10 ^ length f
        = (digits_to_nat w * 10 ^ length f + digits_to_nat f) * 10 ^ d"
      by (simp add: F B0 pw algebra_simps)
    then show ?thesis by (metis of_nat_mult of_nat_numeral of_nat_power)
  qed
  show ?thesis using res eq dv by (auto simp: isError_def)
qed

lemma transferToken_onchain_decimals:
  assumes "getProvider c n = Own p" "getContract wd c n t = Inr (Own k)"
      and "has_method k ''decimals''" "has_method k ''transfer''" "newWallet wd key = None"
      and "decimalsFromConfig c n t = None" "decimalsOf wd k = Inr dc"
  shows "(\<forall>e. parseUnits amt dc = Inl e \<longrightarrow>
            transferToken wd c n t key to amt = (Inl e, [CallDecimals k]))
       \<and> (\<forall>v. parseUnits amt dc = Inr v \<longrightarrow>
            submitted_values (snd (transferToken wd c n t key to amt)) = [v])"
  using assms
  by (auto simp: transferToken_def submitTransfer_def Let_def submitted_values_simps
           split: sum.splits)

lemma transferNative_scaled:
  assumes "getProvider c n = Own p" "newWallet wd key = None"
  shows "(\<forall>e. parseUnits amt 18 = Inl e \<longrightarrow> transferNative wd c n key to amt = (Inl e, []))
       \<and> (\<forall>v. parseUnits amt 18 = Inr v \<longrightarrow>
            submitted_values (snd (transferNative wd c n key to amt)) = [v])"
  using assms
  by (auto simp: transferNative_def parseEther_def Let_def submitted_values_simps split: sum.splits)

lemma getNativeBalance_formats:
  "getProvider c n = Own p \<Longrightarrow> getBalance wd p a = Inr raw \<Longrightarrow>
   getNativeBalance wd c n a = (Inr (formatUnits raw 18), [CallGetBalance p a])"
  by (simp add: getNativeBalance_def formatEther_def)

lemma getTokenBalance_formats:
  "getContract wd c n t = Inr (Own k) \<Longrightarrow> has_method k ''balanceOf'' \<Longrightarrow>
   has_method k ''decimals'' \<Longrightarrow> balanceOf wd k a = Inr raw \<Longrightarrow>
   getTokenBalance wd c n t a
     = (Inr (formatUnits raw (case decimalsOf wd k of Inr x \<Rightarrow> x | Inl _ \<Rightarrow> 18)),
        [CallBalanceOf k a, CallDecimals k])"
  by (simp add: getTokenBalance_def Let_def split: sum.splits)

lemma getTokenBalance_missing_method:
  "getContract wd c n t = Inr (Own k) \<Longrightarrow> has_method k ''balanceOf'' \<Longrightarrow>
   \<not> has_method k ''decimals'' \<Longrightarrow>
   getTokenBalance wd c n t a
     = (Inl (TypeError ''contract.decimals is not a function''), [CallBalanceOf k a])"
  by (simp add: getTokenBalance_def)

text \<open>
  Claim C6. Amount conversion is exact scaling by \<open>10 ^ decimals\<close>: \<open>5.5\<close> at 6 decimals is
  \<open>5500000\<close> and \<open>0.0000001\<close> at 6 decimals fails with \<open>InvalidAmountError\<close>. For a decimal
  numeral \<open>w.f\<close> the result \<open>v\<close>, when there is one, satisfies
  \<open>v * 10 ^ length f = (w * 10 ^ length f + f) * 10 ^ d\<close>, and the conversion fails exactly
  when the scaled amount is not an integer. \<open>transferToken\<close>, on a binding that exposes
  \<open>decimals\<close> and \<open>transfer\<close>, submits the amount scaled by the token's decimals and
  \<open>transferNative\<close> the amount scaled by 18; a failed conversion is the result of the
  transfer and nothing is submitted.
\<close>

theorem amount_conversion_exact:
  "parseUnits ''5.5'' 6 = Inr 5500000
   \<and> parseUnits ''0.0000001'' 6 = Inl InvalidAmountError
   \<and> (list_all is_digit w \<and> list_all is_digit f \<and> (w \<noteq> [] \<or> f \<noteq> []) \<longrightarrow>
        (\<forall>v. parseUnits (w @ ''.'' @ f) d = Inr v \<longrightarrow>
            v * 10 ^ length f
              = int ((digits_to_nat w * 10 ^ length f + digits_to_nat f) * 10 ^ d))
        \<and> isError (parseUnits (w @ ''.'' @ f) d)
            = (\<not> 10 ^ length f dvd digits_to_nat f * 10 ^ d))
   \<and> (getProvider c n = Own p \<and> getContract wd c n t = Inr (Own k)
        \<and> has_method k ''decimals'' \<and> has_method k ''transfer'' \<and> newWallet wd key = None
        \<and> decimalsFromConfig c n t = None \<and> decimalsOf wd k = Inr dc \<longrightarrow>
        (\<forall>e. parseUnits amt dc = Inl e \<longrightarrow>
            transferToken wd c n t key to amt = (Inl e, [CallDecimals k]))
        \<and> (\<forall>v. parseUnits amt dc = Inr v \<longrightarrow>
            submitted_values (snd (transferToken wd c n t key to amt)) = [v]))
   \<and> (getProvider c n = Own p \<and> newWallet wd key = None \<longrightarrow>
        (\<forall>e. parseUnits amt 18 = Inl e \<longrightarrow> transferNative wd c n key to amt = (Inl e, []))
        \<and> (\<forall>v. parseUnits amt 18 = Inr v \<longrightarrow>
            submitted_values (snd (transferNative wd c n key to amt)) = [v]))"
proof (intro conjI impI)
  show "parseUnits ''5.5'' 6 = Inr 5500000" by (rule parseUnits_examples(1))
  show "parseUnits ''0.0000001'' 6 = Inl InvalidAmountError" by (rule parseUnits_examples(2))
next
  assume a: "list_all is_digit w \<and> list_all is_digit f \<and> (w \<noteq> [] \<or> f \<noteq> [])"
  then have w: "list_all is_digit w" and f: "list_all is_digit f" and ne: "w \<noteq> [] \<or> f \<noteq> []"
    by simp_all
  note ex = parseUnits_exact[OF w f ne, of d]
  from ex show "\<forall>v. parseUnits (w @ ''.'' @ f) d = Inr v \<longrightarrow>
            v * 10 ^ length f
              = int ((digits_to_nat w * 10 ^ length f + digits_to_nat f) * 10 ^ d)"
    by (rule conjunct1)
  from ex show "isError (parseUnits (w @ ''.'' @ f) d)
            = (\<not> 10 ^ length f dvd digits_to_nat f * 10 ^ d)"
    by (rule conjunct2)
next
  assume a: "getProvider c n = Own p \<and> getContract wd c n t = Inr (Own k)
        \<and> has_method k ''decimals'' \<and> has_method k ''transfer'' \<and> newWallet wd key = None
        \<and> decimalsFromConfig c n t = None \<and> decimalsOf wd k = Inr dc"
  then have tt: "(\<forall>e. parseUnits amt dc = Inl e \<longrightarrow>
            transferToken wd c n t key to amt = (Inl e, [CallDecimals k]))
       \<and> (\<forall>v. parseUnits amt dc = Inr v \<longrightarrow>
            submitted_values (snd (transferToken wd c n t key to amt)) = [v])"
    using transferToken_onchain_decimals[where c=c and n=n and p=p and t=t and k=k and wd=wd
        and key=key and dc=dc and amt=amt and to=to] by simp
  from tt show "\<forall>e. parseUnits amt dc = Inl e \<longrightarrow>
            transferToken wd c n t key to amt = (Inl e, [CallDecimals k])" by (rule conjunct1)
  from tt show "\<forall>v. parseUnits amt dc = Inr v \<longrightarrow>
            submitted_values (snd (transferToken wd c n t key to amt)) = [v]" by (rule conjunct2)
next
  assume a: "getProvider c n = Own p \<and> newWallet wd key = None"
  then have tn: "(\<forall>e. parseUnits amt 18 = Inl e \<longrightarrow> transferNative wd c n key to amt = (Inl e, []))
       \<and> (\<forall>v. parseUnits amt 18 = Inr v \<longrightarrow>
            submitted_values (snd (transferNative wd c n key to amt)) = [v])"
    using transferNative_scaled[where c=c and n=n and p=p and wd=wd and key=key and amt=amt
        and to=to] by simp
  from tn show "\<forall>e. parseUnits amt 18 = Inl e \<longrightarrow> transferNative wd c n key to amt = (Inl e, [])"
    by (rule conjunct1)
  from tn show "\<forall>v. parseUnits amt 18 = Inr v \<longrightarrow>
            submitted_values (snd (transferNative wd c n key to amt)) = [v]" by (rule conjunct2)
qed

theorem amount_conversion_exact_witness:
  "list_all is_digit ''0'' \<and> list_all is_digit ''0000001''
   \<and> isError (parseUnits (''0'' @ ''.'' @ ''0000001'') 6)
   \<and> getProvider plain_client ''celo'' = Own celo_provider
   \<and> getContract example_world plain_client ''celo'' ''USD'' = Inr (Own usd_contract)
   \<and> has_method usd_contract ''decimals'' \<and> has_method usd_contract ''transfer''
   \<and> newWallet example_world sender_key = None
   \<and> decimalsFromConfig plain_client ''celo'' ''USD'' = None
   \<and> decimalsOf example_world usd_contract = Inr 6
   \<and> submitted_values (snd (transferToken example_world plain_client ''celo'' ''USD''
          sender_key holder ''5.5'')) = [5500000]
   \<and> transferToken example_world plain_client ''celo'' ''USD'' sender_key holder ''0.0000001''
        = (Inl InvalidAmountError, [CallDecimals usd_contract])
   \<and> submitted_values (snd (transferNative example_world plain_client ''celo''
          sender_key holder ''0.01'')) = [10000000000000000]"
  using amount_conversion_exact
          [where w="''0''" and f="''0000001''" and d=6 and c=plain_client and n="''celo''"
             and p=celo_provider
             and t="''USD''" and k=usd_contract and wd=example_world and key=sender_key
             and dc=6 and amt="''5.5''" and to=holder]
        amount_conversion_exact
          [where w="''0''" and f="''0000001''" and d=6 and c=plain_client and n="''celo''"
             and p=celo_provider
             and t="''USD''" and k=usd_contract and wd=example_world and key=sender_key
             and dc=6 and amt="''0.0000001''" and to=holder]
        amount_conversion_exact
          [where w="''0''" and f="''0000001''" and d=6 and c=plain_client and n="''celo''"
             and p=celo_provider
             and t="''USD''" and k=usd_contract and wd=example_world and key=sender_key
             and dc=6 and amt="''0.01''" and to=holder]
  by (simp add: example_clients_registry parseUnits_examples example_world_def is_digit_def
        digits_to_nat_def digit_val_def)

text \<open>
  Claim C7. Balance formatting is exact: \<open>1500000000000000000\<close> at 18 decimals is \<open>1.5\<close> and
  \<open>0\<close> is \<open>0.0\<close>; scaling the formatted string back gives the raw balance, for every
  balance and decimal count. \<open>getNativeBalance\<close> formats the balance read at 18 decimals;
  \<open>getTokenBalance\<close>, on a binding that exposes \<open>balanceOf\<close> and \<open>decimals\<close>, formats it
  at the token's on-chain decimals (18 when that call is rejected).
\<close>

theorem balance_formatting_exact:
  "formatUnits 1500000000000000000 18 = ''1.5''
   \<and> formatUnits 0 18 = ''0.0''
   \<and> parseUnits (formatUnits raw d) d = Inr (int raw)
   \<and> (getProvider c n = Own p \<and> getBalance wd p a = Inr raw \<longrightarrow>
        fst (getNativeBalance wd c n a) = Inr (formatUnits raw 18))
   \<and> (getContract wd c n t = Inr (Own k) \<and> has_method k ''balanceOf''
        \<and> has_method k ''decimals'' \<and> balanceOf wd k a = Inr raw \<longrightarrow>
        fst (getTokenBalance wd c n t a)
          = Inr (formatUnits raw (case decimalsOf wd k of Inr x \<Rightarrow> x | Inl _ \<Rightarrow> 18)))"
proof (intro conjI impI)
  show "formatUnits 1500000000000000000 18 = ''1.5''" by (rule formatUnits_examples(1))
  show "formatUnits 0 18 = ''0.0''" by (rule formatUnits_examples(2))
  show "parseUnits (formatUnits raw d) d = Inr (int raw)" by (rule parse_format_roundtrip)
next
  assume "getProvider c n = Own p \<and> getBalance wd p a = Inr raw"
  then show "fst (getNativeBalance wd c n a) = Inr (formatUnits raw 18)"
    by (simp add: getNativeBalance_formats)
next
  assume "getContract wd c n t = Inr (Own k) \<and> has_method k ''balanceOf''
        \<and> has_method k ''decimals'' \<and> balanceOf wd k a = Inr raw"
  then show "fst (getTokenBalance wd c n t a)
          = Inr (formatUnits raw (case decimalsOf wd k of Inr x \<Rightarrow> x | Inl _ \<Rightarrow> 18))"
    by (simp add: getTokenBalance_formats)
qed

theorem balance_formatting_exact_witness:
  "getProvider plain_client ''celo'' = Own celo_provider
   \<and> getBalance example_world celo_provider holder = Inr 1500000000000000000
   \<and> fst (getNativeBalance example_world plain_client ''celo'' holder) = Inr ''1.5''
   \<and> getContract
         (example_world\<lparr>decimalsOf := \<lambda>_. Inl (RemoteError ''execution reverted'')\<rparr>)
         plain_client ''celo'' ''USD'' = Inr (Own usd_contract)
   \<and> has_method usd_contract ''balanceOf'' \<and> has_method usd_contract ''decimals''
   \<and> balanceOf example_world usd_contract holder = Inr 0
   \<and> fst (getTokenBalance
             (example_world\<lparr>decimalsOf := \<lambda>_. Inl (RemoteError ''execution reverted'')\<rparr>)
             plain_client ''celo'' ''USD'' holder) = Inr ''0.0''"
  using balance_formatting_exact
          [where raw=1500000000000000000 and c=plain_client and n="''celo''"
             and p=celo_provider
             and wd=example_world and a=holder]
        balance_formatting_exact
          [where raw=0 and c=plain_client and n="''celo''" and t="''USD''" and k=usd_contract
             and wd="example_world\<lparr>decimalsOf := \<lambda>_. Inl (RemoteError ''execution reverted'')\<rparr>"
             and a=holder]
  by (simp add: example_clients_registry example_world_def)

end
